theory Spec2Isabelle
  imports Complex_Main "HOL-Library.Multiset"
begin

section \<open>The stock and options dashboard: data model\<close>

text \<open>
  The program is one Python script, \<^verbatim>\<open>final_comprehensive_app.py\<close>. Prices are
  float64 values in the script; here they are real numbers, so every statement below is
  about exact arithmetic (rounding, NaN and infinities are outside the model). Calendar
  dates are year, month, day.
\<close>

type_synonym date = "nat \<times> nat \<times> nat"

text \<open>
  One row of the frame that \<^verbatim>\<open>yf.download\<close> returns, and the frame itself. The
  frame carries the provider's columns in its rows; \<^verbatim>\<open>Days\<close> is the one column the
  script itself adds (\<open>None\<close> while the frame has no such column).
\<close>

record price_bar =
  bar_date :: date
  Open :: real
  High :: real
  Low :: real
  Close :: real
  Volume :: real

record data_frame =
  bars :: "price_bar list"
  Days :: "int list option"

text \<open>One row of an option chain (\<^verbatim>\<open>options_chain.calls\<close>, \<^verbatim>\<open>options_chain.puts\<close>).\<close>

record contract =
  contractSymbol :: string
  strike :: real
  bid :: real
  ask :: real

text \<open>Python exceptions that reach one of the script's handlers.\<close>

datatype exn = ValueError | IndexError | ProviderError string

text \<open>
  A \<^verbatim>\<open>yf.Ticker\<close> object, as far as the script reads it: the \<^verbatim>\<open>info\<close> dictionary,
  the tuple of expiry dates \<^verbatim>\<open>options\<close> and the method \<^verbatim>\<open>option_chain(expiry)\<close>
  with its \<^verbatim>\<open>calls\<close> and \<^verbatim>\<open>puts\<close>. Each of them asks the provider and may raise.
\<close>

record stock =
  info :: "exn + (string \<rightharpoonup> string)"
  options :: "exn + string list"
  option_chain :: "string \<Rightarrow> exn + (contract list \<times> contract list)"

text \<open>The yfinance module: \<^verbatim>\<open>yf.download(symbol, start, end)\<close> and \<^verbatim>\<open>yf.Ticker(symbol)\<close>.\<close>

record provider =
  download :: "string \<Rightarrow> date \<Rightarrow> date \<Rightarrow> exn + data_frame"
  Ticker :: "string \<Rightarrow> stock"

subsection \<open>What the script shows and requests\<close>

text \<open>
  The texts the script renders, one constructor per format string, with the values the
  string interpolates (the \<^verbatim>\<open>:.2f\<close> rendering of a number is not modelled).
\<close>

datatype message =
    No_data_found string
  | Error_fetching_data string exn
  | Error_during_prediction exn
  | Options_recommendations_for string
  | No_options_available string
  | Relevant_call_options
  | Relevant_put_options
  | Recommendation_buy_calls real real
  | Recommendation_buy_puts real real
  | Recommendation_hold
  | Error_analyzing_options exn
  | Top_recommendations_header
  | Error_processing_ticker string exn
  | No_valid_recommendations
  | Entry_line string real real real
  | Error_analyzing_options_for string exn
  | Stock_analysis_header
  | Current_price_line real
  | Predicted_price_line real
  | Unable_to_calculate
  | Options_analysis_header
  | Select_a_stock_first
  | Unexpected_error
  | Traceback exn

text \<open>
  The observable effects of a run, in order: the Streamlit calls that render something,
  and the two calls into yfinance that name a symbol.
\<close>

datatype effect =
    St_header message
  | St_subheader message
  | St_warning message
  | St_write message
  | St_dataframe "contract list"
  | St_success message
  | St_info message
  | St_error message
  | St_text message
  | Yf_download string date date
  | Yf_Ticker string

subsection \<open>Runs: effects, and a value or a raised exception\<close>

type_synonym 'a run = "effect list \<times> (exn + 'a)"

definition ret :: "'a \<Rightarrow> 'a run" where
  "ret v = ([], Inr v)"

definition raise :: "exn \<Rightarrow> 'a run" where
  "raise e = ([], Inl e)"

definition emit :: "effect \<Rightarrow> unit run" where
  "emit ev = ([ev], Inr ())"

text \<open>\<open>m\<close>, then \<open>f\<close> on its value; an exception of \<open>m\<close> skips \<open>f\<close>.\<close>

definition andthen :: "'a run \<Rightarrow> ('a \<Rightarrow> 'b run) \<Rightarrow> 'b run" where
  "andthen m f =
     (case m of
        (es, Inl e) \<Rightarrow> (es, Inl e)
      | (es, Inr v) \<Rightarrow> (case f v of (es', r) \<Rightarrow> (es @ es', r)))"

text \<open>\<^verbatim>\<open>try: m  except Exception as e: h e\<close>\<close>

definition try_except :: "'a run \<Rightarrow> (exn \<Rightarrow> 'a run) \<Rightarrow> 'a run" where
  "try_except m h =
     (case m of
        (es, Inl e) \<Rightarrow> (case h e of (es', r) \<Rightarrow> (es @ es', r))
      | (es, Inr v) \<Rightarrow> (es, Inr v))"

text \<open>A call into the provider: its answer, or the exception it raises.\<close>

definition call :: "exn + 'a \<Rightarrow> 'a run" where
  "call r = ([], r)"

definition effects :: "'a run \<Rightarrow> effect list" where
  "effects m = fst m"

definition outcome :: "'a run \<Rightarrow> exn + 'a" where
  "outcome m = snd m"

section \<open>The script\<close>

definition top_50_stocks :: "string list" where
  "top_50_stocks =
     [''AAPL'', ''MSFT'', ''GOOGL'', ''AMZN'', ''TSLA'', ''META'', ''NVDA'', ''BRK.B'', ''V'', ''JPM'',
      ''JNJ'', ''WMT'', ''PG'', ''UNH'', ''HD'', ''MA'', ''DIS'', ''PYPL'', ''BAC'', ''NFLX'',
      ''ADBE'', ''KO'', ''PEP'', ''NKE'', ''T'', ''PFE'', ''MRK'', ''INTC'', ''XOM'', ''CSCO'',
      ''ORCL'', ''CMCSA'', ''ABT'', ''CRM'', ''COST'', ''VZ'', ''ACN'', ''AMD'', ''UPS'', ''QCOM'',
      ''TXN'', ''AVGO'', ''LIN'', ''LOW'', ''HON'', ''AMGN'', ''CVX'', ''MDT'', ''PM'', ''NEE'']"

subsection \<open>\<^verbatim>\<open>fetch_stock_data\<close>\<close>

text \<open>
  \<^verbatim>\<open>s.replace(old, new)\<close> for a one-character \<^verbatim>\<open>old\<close> and \<^verbatim>\<open>new\<close>: every
  occurrence is replaced.
\<close>

fun str_replace :: "char \<Rightarrow> char \<Rightarrow> string \<Rightarrow> string" where
  "str_replace old new [] = []"
| "str_replace old new (c # s) = (if c = old then new else c) # str_replace old new s"

text \<open>
  The body of the function (its decorator \<^verbatim>\<open>st.cache_data\<close> stores the value
  returned for an argument triple and answers a later call with the same arguments from
  the store; this is the call that misses the store).
\<close>

definition fetch_stock_data :: "provider \<Rightarrow> string \<Rightarrow> date \<Rightarrow> date \<Rightarrow> data_frame option run" where
  "fetch_stock_data yf ticker start_date end_date =
     try_except
       (let adjusted_ticker = str_replace CHR ''.'' CHR ''-'' ticker in
        andthen (emit (Yf_download adjusted_ticker start_date end_date)) (\<lambda>_.
        andthen (call (download yf adjusted_ticker start_date end_date)) (\<lambda>stock_data.
          if bars stock_data = [] then
            andthen (emit (St_warning (No_data_found ticker))) (\<lambda>_. ret None)
          else ret (Some stock_data))))
       (\<lambda>e. andthen (emit (St_warning (Error_fetching_data ticker e))) (\<lambda>_. ret None))"

subsection \<open>\<^verbatim>\<open>predict_price_movement\<close>\<close>

text \<open>
  \<^verbatim>\<open>LinearRegression\<close> of scikit-learn is ordinary least squares with an intercept.
  For the single feature the script gives it, the fitted line is the closed form below.
  \<^verbatim>\<open>predict\<close> rejects an input with no rows.
\<close>

record linear_model =
  coef :: real
  intercept :: real

definition mean :: "real list \<Rightarrow> real" where
  "mean xs = sum_list xs / real (length xs)"

definition LinearRegression_fit :: "real list \<Rightarrow> real list \<Rightarrow> linear_model" where
  "LinearRegression_fit X y =
     (let x_mean = mean X;
          y_mean = mean y;
          sxy = sum_list (map (\<lambda>(x, v). (x - x_mean) * (v - y_mean)) (zip X y));
          sxx = sum_list (map (\<lambda>x. (x - x_mean) * (x - x_mean)) X);
          slope = sxy / sxx
      in \<lparr>coef = slope, intercept = y_mean - slope * x_mean\<rparr>)"

definition LinearRegression_predict :: "linear_model \<Rightarrow> real list \<Rightarrow> real list run" where
  "LinearRegression_predict model X =
     (if X = [] then raise ValueError
      else ret (map (\<lambda>x. coef model * x + intercept model) X))"

text \<open>\<^verbatim>\<open>np.arange(a, b)\<close> on integers: \<open>a, a + 1, ..., b - 1\<close>, empty when \<open>b \<le> a\<close>.\<close>

definition arange :: "int \<Rightarrow> int \<Rightarrow> int list" where
  "arange a b = map (\<lambda>k. a + int k) [0..<nat (b - a)]"

text \<open>\<^verbatim>\<open>xs[-1]\<close>\<close>

definition last_item :: "'a list \<Rightarrow> 'a run" where
  "last_item xs = (if xs = [] then raise IndexError else ret (last xs))"

text \<open>
  The function assigns the column \<^verbatim>\<open>Days\<close> on the frame it is given, so the frame
  after the call is part of the result: the value of a run is the frame (as the caller
  sees it afterwards) and the returned pair.
\<close>

definition predict_price_movement ::
  "data_frame option \<Rightarrow> int \<Rightarrow> (data_frame option \<times> real option \<times> real option) run" where
  "predict_price_movement data days =
     (case data of
        None \<Rightarrow> ret (None, None, None)
      | Some d \<Rightarrow>
          if length (bars d) < 2 then ret (Some d, None, None)
          else
            (let n = int (length (bars d));
                 Days_column = arange 0 n;
                 d' = d\<lparr>Days := Some Days_column\<rparr>
             in try_except
                  (let X = map real_of_int Days_column;
                       y = map Close (bars d');
                       model = LinearRegression_fit X y;
                       future_days = map real_of_int (arange n (n + days))
                   in andthen (LinearRegression_predict model future_days) (\<lambda>predictions.
                      andthen (last_item predictions) (\<lambda>predicted.
                        ret (Some d', Some (Close (last (bars d'))), Some predicted))))
                  (\<lambda>e. andthen (emit (St_warning (Error_during_prediction e))) (\<lambda>_.
                        ret (Some d', None, None)))))"

subsection \<open>\<^verbatim>\<open>analyze_single_stock\<close>\<close>

text \<open>\<^verbatim>\<open>stock.info.get('shortName', 'Unknown Stock')\<close>\<close>

definition shortName :: "(string \<rightharpoonup> string) \<Rightarrow> string" where
  "shortName i = (case i ''shortName'' of None \<Rightarrow> ''Unknown Stock'' | Some s \<Rightarrow> s)"

text \<open>
  The subheader is rendered before the \<^verbatim>\<open>try\<close>, so an exception of \<^verbatim>\<open>stock.info\<close>
  there leaves the function; everything after it is inside the \<^verbatim>\<open>try\<close>.
\<close>

definition analyze_single_stock :: "stock \<Rightarrow> real \<Rightarrow> real \<Rightarrow> unit run" where
  "analyze_single_stock stock current_price predicted_price =
     andthen (call (info stock)) (\<lambda>i.
     andthen (emit (St_subheader (Options_recommendations_for (shortName i)))) (\<lambda>_.
     try_except
       (andthen (call (options stock)) (\<lambda>expiry_dates.
          case expiry_dates of
            [] \<Rightarrow>
              andthen (call (info stock)) (\<lambda>i'.
                emit (St_warning (No_options_available (shortName i'))))
          | expiry # _ \<Rightarrow>
              andthen (call (option_chain stock expiry)) (\<lambda>(calls, puts).
                let relevant_calls =
                      filter (\<lambda>c. strike c \<ge> current_price * 0.95 \<and> strike c \<le> current_price * 1.05) calls;
                    relevant_puts =
                      filter (\<lambda>c. strike c \<ge> current_price * 0.95 \<and> strike c \<le> current_price * 1.05) puts
                in
                andthen (emit (St_write Relevant_call_options)) (\<lambda>_.
                andthen (emit (St_dataframe relevant_calls)) (\<lambda>_.
                andthen (emit (St_write Relevant_put_options)) (\<lambda>_.
                andthen (emit (St_dataframe relevant_puts)) (\<lambda>_.
                  if predicted_price > current_price * 1.05 then
                    emit (St_success (Recommendation_buy_calls predicted_price current_price))
                  else if predicted_price < current_price * 0.95 then
                    emit (St_success (Recommendation_buy_puts predicted_price current_price))
                  else emit (St_info Recommendation_hold))))))))
       (\<lambda>e. emit (St_warning (Error_analyzing_options e)))))"

subsection \<open>\<^verbatim>\<open>find_top_recommendations\<close>\<close>

text \<open>\<^verbatim>\<open>for x in xs: body\<close>, with the variables the body updates as the value.\<close>

fun for_each :: "('s \<Rightarrow> 'a \<Rightarrow> 's run) \<Rightarrow> 'a list \<Rightarrow> 's \<Rightarrow> 's run" where
  "for_each body [] s = ret s"
| "for_each body (x # xs) s = andthen (body s x) (for_each body xs)"

text \<open>An element of \<^verbatim>\<open>results\<close>: ticker, current price, predicted price, movement.\<close>

type_synonym entry = "string \<times> real \<times> real \<times> real"

definition movement_of :: "entry \<Rightarrow> real" where
  "movement_of x = snd (snd (snd x))"

text \<open>
  The body of the first loop. Both \<^verbatim>\<open>continue\<close> statements leave \<^verbatim>\<open>results\<close> as it
  is. The call of \<^verbatim>\<open>predict_price_movement\<close> takes the default \<^verbatim>\<open>days=7\<close>.
\<close>

definition process_ticker :: "provider \<Rightarrow> date \<Rightarrow> entry list \<Rightarrow> string \<Rightarrow> entry list run" where
  "process_ticker yf today results ticker =
     try_except
       (andthen (fetch_stock_data yf ticker (2022, 1, 1) today) (\<lambda>stock_data.
          case stock_data of
            None \<Rightarrow> ret results
          | Some d \<Rightarrow>
              andthen (predict_price_movement (Some d) 7) (\<lambda>(_, current_price, predicted_price).
                case (current_price, predicted_price) of
                  (Some c, Some p) \<Rightarrow>
                    (let movement = \<bar>p - c\<bar> in ret (results @ [(ticker, c, p, movement)]))
                | _ \<Rightarrow> ret results)))
       (\<lambda>e. andthen (emit (St_warning (Error_processing_ticker ticker e))) (\<lambda>_. ret results))"

text \<open>The body of the second loop.\<close>

definition analyze_entry :: "provider \<Rightarrow> entry \<Rightarrow> unit run" where
  "analyze_entry yf x =
     (case x of (ticker, current_price, predicted_price, movement) \<Rightarrow>
        try_except
          (andthen (emit (St_write (Entry_line ticker predicted_price current_price movement))) (\<lambda>_.
           andthen (emit (Yf_Ticker (str_replace CHR ''.'' CHR ''-'' ticker))) (\<lambda>_.
             analyze_single_stock (Ticker yf (str_replace CHR ''.'' CHR ''-'' ticker))
               current_price predicted_price)))
          (\<lambda>e. emit (St_warning (Error_analyzing_options_for ticker e))))"

text \<open>
  \<^verbatim>\<open>sorted(valid_results, key=lambda x: x[3], reverse=True)[:5]\<close>: a stable sort, largest
  movement first (entries of equal movement keep their order), cut to five.
\<close>

definition sorted_results :: "entry list \<Rightarrow> entry list" where
  "sorted_results valid_results = take 5 (sort_key (\<lambda>x. - movement_of x) valid_results)"

text \<open>
  The function reads the module's list \<^verbatim>\<open>top_50_stocks\<close>; \<open>find_top_recommendations_in\<close>
  is its body with that list as the argument \<open>universe\<close>. Every element of
  \<^verbatim>\<open>results\<close> is a tuple of a ticker and three float64 values, which are instances of
  \<^verbatim>\<open>float\<close>, so the comprehension that builds \<^verbatim>\<open>valid_results\<close> keeps every element.
\<close>

definition find_top_recommendations_in :: "string list \<Rightarrow> provider \<Rightarrow> date \<Rightarrow> unit run" where
  "find_top_recommendations_in universe yf today =
     andthen (emit (St_subheader Top_recommendations_header)) (\<lambda>_.
     andthen (for_each (process_ticker yf today) universe []) (\<lambda>results.
       let valid_results = results in
       if valid_results = [] then emit (St_warning No_valid_recommendations)
       else
         andthen (for_each (\<lambda>_ x. analyze_entry yf x) (sorted_results valid_results) ()) (\<lambda>_.
           ret ())))"

definition find_top_recommendations :: "provider \<Rightarrow> date \<Rightarrow> unit run" where
  "find_top_recommendations yf today = find_top_recommendations_in top_50_stocks yf today"

subsection \<open>The page\<close>

text \<open>
  What the widgets of one run of the script return, and the two values the script keeps
  in \<^verbatim>\<open>st.session_state\<close> from one run to the next.
\<close>

record ui_inputs =
  selected_stock :: string
  start_date :: date
  end_date :: date
  analyze_stock_button :: bool
  top_recommendations_button :: bool

record session_state =
  session_stock_data :: "data_frame option"
  session_selected_stock :: "string option"

text \<open>
  The first tab. The frame stored in the session is the object that
  \<^verbatim>\<open>predict_price_movement\<close> is then called on, so the session holds the frame as it
  is after that call.
\<close>

definition tab_stock_analysis ::
  "provider \<Rightarrow> date \<Rightarrow> ui_inputs \<Rightarrow> session_state \<Rightarrow> session_state \<times> unit run" where
  "tab_stock_analysis yf today inp ss =
     (if \<not> analyze_stock_button inp then (ss, emit (St_header Stock_analysis_header))
      else if selected_stock inp = ''Analyze All'' then
        (ss, andthen (emit (St_header Stock_analysis_header)) (\<lambda>_. find_top_recommendations yf today))
      else
        (let ss1 = ss\<lparr>session_selected_stock := Some (selected_stock inp)\<rparr>;
             fetched = andthen (emit (St_header Stock_analysis_header)) (\<lambda>_.
                         fetch_stock_data yf (selected_stock inp) (start_date inp) (end_date inp))
         in case fetched of
              (es1, Inl e) \<Rightarrow> (ss1, (es1, Inl e))
            | (es1, Inr None) \<Rightarrow> (ss1, (es1, Inr ()))
            | (es1, Inr (Some stock_data)) \<Rightarrow>
                (case predict_price_movement (Some stock_data) 7 of
                   (es2, Inl e) \<Rightarrow> (ss1\<lparr>session_stock_data := Some stock_data\<rparr>, (es1 @ es2, Inl e))
                 | (es2, Inr (data', current_price, predicted_price)) \<Rightarrow>
                     (ss1\<lparr>session_stock_data := data'\<rparr>,
                      andthen (es1 @ es2, Inr ()) (\<lambda>_.
                        case (current_price, predicted_price) of
                          (Some c, Some p) \<Rightarrow>
                            andthen (emit (St_write (Current_price_line c))) (\<lambda>_.
                            andthen (emit (St_write (Predicted_price_line p))) (\<lambda>_.
                            andthen (emit (Yf_Ticker (selected_stock inp))) (\<lambda>_.
                              analyze_single_stock (Ticker yf (selected_stock inp)) c p)))
                        | _ \<Rightarrow> emit (St_error Unable_to_calculate))))))"

text \<open>The second tab; an empty string and \<^verbatim>\<open>None\<close> both count as no selection.\<close>

definition tab_options_analysis :: "provider \<Rightarrow> session_state \<Rightarrow> session_state \<times> unit run" where
  "tab_options_analysis yf ss =
     (case session_selected_stock ss of
        None \<Rightarrow>
          (ss, andthen (emit (St_header Options_analysis_header)) (\<lambda>_.
                 emit (St_info Select_a_stock_first)))
      | Some sel \<Rightarrow>
          if sel = [] then
            (ss, andthen (emit (St_header Options_analysis_header)) (\<lambda>_.
                   emit (St_info Select_a_stock_first)))
          else
            (case predict_price_movement (session_stock_data ss) 7 of
               (es, Inl e) \<Rightarrow>
                 (ss, ([St_header Options_analysis_header,
                        Yf_Ticker (str_replace CHR ''.'' CHR ''-'' sel)] @ es, Inl e))
             | (es, Inr (data', current_price, predicted_price)) \<Rightarrow>
                 (ss\<lparr>session_stock_data := data'\<rparr>,
                  andthen ([St_header Options_analysis_header,
                            Yf_Ticker (str_replace CHR ''.'' CHR ''-'' sel)] @ es, Inr ()) (\<lambda>_.
                    case (current_price, predicted_price) of
                      (Some c, Some p) \<Rightarrow>
                        analyze_single_stock (Ticker yf (str_replace CHR ''.'' CHR ''-'' sel)) c p
                    | _ \<Rightarrow> emit (St_error Unable_to_calculate)))))"

text \<open>The third tab.\<close>

definition tab_top_recommendations :: "provider \<Rightarrow> date \<Rightarrow> ui_inputs \<Rightarrow> unit run" where
  "tab_top_recommendations yf today inp =
     (if top_recommendations_button inp then find_top_recommendations yf today else ret ())"

text \<open>The handler around the three tabs.\<close>

definition global_error_handler :: "exn \<Rightarrow> unit run" where
  "global_error_handler e =
     andthen (emit (St_error Unexpected_error)) (\<lambda>_. emit (St_text (Traceback e)))"

text \<open>One run of the script: the session afterwards, and what the run did.\<close>

definition app :: "provider \<Rightarrow> date \<Rightarrow> ui_inputs \<Rightarrow> session_state \<Rightarrow> session_state \<times> unit run" where
  "app yf today inp ss =
     (case tab_stock_analysis yf today inp ss of (ss1, r1) \<Rightarrow>
        (case r1 of
           (es1, Inl e) \<Rightarrow> (ss1, try_except r1 global_error_handler)
         | (es1, Inr _) \<Rightarrow>
             (case tab_options_analysis yf ss1 of (ss2, r2) \<Rightarrow>
                (ss2, try_except
                        (andthen r1 (\<lambda>_. andthen r2 (\<lambda>_. tab_top_recommendations yf today inp)))
                        global_error_handler))))"

subsection \<open>Reading a run\<close>




text \<open>The requests for price history a run sent: symbol, start date, end date.\<close>

fun downloads :: "effect list \<Rightarrow> (string \<times> date \<times> date) list" where
  "downloads [] = []"
| "downloads (Yf_download symbol s e # es) = (symbol, s, e) # downloads es"
| "downloads (ev # es) = downloads es"

text \<open>
  What one ticker contributes to \<^verbatim>\<open>results\<close> in the batch: the entry appended for it when
  the loader returns a frame and the forecaster returns a pair without \<^verbatim>\<open>None\<close>, and
  \<open>None\<close> when the ticker is skipped.
\<close>

definition forecast_entry :: "provider \<Rightarrow> date \<Rightarrow> string \<Rightarrow> entry option" where
  "forecast_entry yf today ticker =
     (case outcome (fetch_stock_data yf ticker (2022, 1, 1) today) of
        Inr (Some d) \<Rightarrow>
          (case outcome (predict_price_movement (Some d) 7) of
             Inr (_, Some c, Some p) \<Rightarrow> Some (ticker, c, p, \<bar>p - c\<bar>)
           | _ \<Rightarrow> None)
      | _ \<Rightarrow> None)"

subsection \<open>Sample data\<close>

text \<open>A bar that closes at \<open>c\<close>, and the frame of such bars as \<^verbatim>\<open>yf.download\<close> returns it.\<close>

definition bar_closing_at :: "real \<Rightarrow> price_bar" where
  "bar_closing_at c =
     \<lparr>bar_date = (2022, 1, 3), Open = c, High = c, Low = c, Close = c, Volume = 0\<rparr>"

definition frame_of_closes :: "real list \<Rightarrow> data_frame" where
  "frame_of_closes cs = \<lparr>bars = map bar_closing_at cs, Days = None\<rparr>"

text \<open>An option contract with the strike \<open>s\<close>, and a ticker with one chain of such contracts.\<close>

definition option_at :: "real \<Rightarrow> contract" where
  "option_at s = \<lparr>contractSymbol = ''OPT'', strike = s, bid = 1, ask = 2\<rparr>"

definition sample_stock :: stock where
  "sample_stock =
     \<lparr>info = Inr (\<lambda>k. if k = ''shortName'' then Some ''Sample Inc.'' else None),
      options = Inr [''2025-01-17'', ''2025-02-21''],
      option_chain = (\<lambda>expiry.
        if expiry = ''2025-01-17''
        then Inr (map option_at [90, 95, 100, 105, 110], map option_at [94, 95, 105, 106])
        else Inl (ProviderError ''no such expiry''))\<rparr>"


text \<open>
  A provider that has five rising bars for AAPL, two falling bars for BRK-B, a single bar
  for T, fails for MSFT and has no data for any other symbol.
\<close>

definition sample_provider :: provider where
  "sample_provider =
     \<lparr>download = (\<lambda>symbol s e.
        if symbol = ''AAPL'' then Inr (frame_of_closes [100, 101, 102, 103, 104])
        else if symbol = ''BRK-B'' then Inr (frame_of_closes [50, 48])
        else if symbol = ''T'' then Inr (frame_of_closes [17])
        else if symbol = ''MSFT'' then Inl (ProviderError ''timeout'')
        else Inr (frame_of_closes [])),
      Ticker = (\<lambda>symbol. sample_stock)\<rparr>"

text \<open>
  A run of the page with "Analyze All" selected, some dates entered and the button of the
  first tab pressed, in a fresh session.
\<close>

definition sample_batch_inputs :: ui_inputs where
  "sample_batch_inputs =
     \<lparr>selected_stock = ''Analyze All'', start_date = (2023, 1, 2), end_date = (2023, 12, 29),
      analyze_stock_button = True, top_recommendations_button = False\<rparr>"

definition sample_session :: session_state where
  "sample_session = \<lparr>session_stock_data = None, session_selected_stock = None\<rparr>"

section \<open>Properties of the forecaster\<close>

subsection \<open>Auxiliary facts\<close>

lemma predict_short:
  "length (bars d) < 2 \<Longrightarrow> predict_price_movement (Some d) days = ret (Some d, None, None)"
  by (simp add: predict_price_movement_def)

lemma arange_0: "arange 0 (int n) = map int [0..<n]"
  by (simp add: arange_def)

lemma arange_last: "1 \<le> h \<Longrightarrow> arange n (n + h) \<noteq> [] \<and> last (arange n (n + h)) = n + h - 1"
  by (simp add: arange_def last_map)

lemma sum_list_real_upt: "sum_list (map (\<lambda>i. a * real i + b) [0..<n]) = a * sum_list (map real [0..<n]) + b * real n"
  by (induction n) (simp_all add: algebra_simps)

lemma mean_linear:
  "0 < n \<Longrightarrow> mean (map (\<lambda>i. a * real i + b) [0..<n]) = a * mean (map real [0..<n]) + b"
  by (simp add: mean_def sum_list_real_upt add_divide_distrib)

lemma sxx_pos:
  assumes "2 \<le> n"
  shows "0 < sum_list (map (\<lambda>x. (x - m) * (x - m)) (map real [0..<n]))"
proof -
  have nn: "\<And>xs :: real list. 0 \<le> sum_list (map (\<lambda>x. (x - m) * (x - m)) xs)"
    by (rule sum_list_nonneg) auto
  obtain k where n: "n = Suc (Suc k)" using assms by (metis Suc_le_D numeral_2_eq_2 Suc_le_mono)
  have "[0..<n] = 0 # 1 # [2..<n]" unfolding n by (simp add: upt_rec numeral_2_eq_2)
  then have eq: "sum_list (map (\<lambda>x. (x - m) * (x - m)) (map real [0..<n]))
      = (0 - m) * (0 - m) + ((1 - m) * (1 - m) + sum_list (map (\<lambda>x. (x - m) * (x - m)) (map real [2..<n])))"
    by simp
  have "0 < (0 - m) * (0 - m) + (1 - m) * (1 - m)"
  proof (cases "m = 0")
    case True then show ?thesis by simp
  next
    case False
    then show ?thesis
      by (intro add_pos_nonneg) (auto simp: zero_less_mult_iff neq_iff)
  qed
  with nn[of "map real [2..<n]"] eq show ?thesis by linarith
qed

lemma fit_linear:
  assumes "2 \<le> n"
  shows "LinearRegression_fit (map real [0..<n]) (map (\<lambda>i. a * real i + b) [0..<n])
         = \<lparr>coef = a, intercept = b\<rparr>"
proof -
  define m where "m = mean (map real [0..<n])"
  define sxx where "sxx = sum_list (map (\<lambda>x. (x - m) * (x - m)) (map real [0..<n]))"
  have n0: "0 < n" using assms by simp
  have ym: "mean (map (\<lambda>i. a * real i + b) [0..<n]) = a * m + b"
    unfolding m_def by (rule mean_linear[OF n0])
  have z: "zip (map real [0..<n]) (map (\<lambda>i. a * real i + b) [0..<n])
        = map (\<lambda>i. (real i, a * real i + b)) [0..<n]"
    by (simp add: zip_map_map zip_same_conv_map)
  have sxy: "sum_list (map (\<lambda>(x, v). (x - m) * (v - (a * m + b))) (map (\<lambda>i. (real i, a * real i + b)) [0..<n]))
        = a * sxx"
    unfolding sxx_def
    by (simp add: sum_list_const_mult[symmetric] comp_def algebra_simps)
  have pos: "sxx \<noteq> 0" using sxx_pos[OF assms, of m] unfolding sxx_def by simp
  show ?thesis
    unfolding LinearRegression_fit_def Let_def ym z m_def[symmetric] sxy sxx_def[symmetric]
    using pos by simp
qed

text \<open>
  The closed form is the least-squares line: no other slope \<open>a\<close> and intercept \<open>b\<close> has a
  smaller sum of squared residuals (whenever the feature takes two different values, as
  the bar indices of a series of two or more bars do, by \<open>sxx_pos\<close>).
\<close>

lemma sum_list_centered:
  fixes f :: "'a \<Rightarrow> real"
  assumes "ps \<noteq> []"
  shows "sum_list (map (\<lambda>p. f p - sum_list (map f ps) / real (length ps)) ps) = 0"
  using assms by (simp add: sum_list_subtractf sum_list_triv)

lemma fit_least_squares:
  assumes len: "length X = length y"
    and sxx: "sum_list (map (\<lambda>x. (x - mean X) * (x - mean X)) X) \<noteq> 0"
  shows "sum_list (map (\<lambda>(x, v). (v - (coef (LinearRegression_fit X y) * x
                                          + intercept (LinearRegression_fit X y)))\<^sup>2) (zip X y))
       \<le> sum_list (map (\<lambda>(x, v). (v - (a * x + b))\<^sup>2) (zip X y))"
proof -
  define ps where "ps = zip X y"
  have X: "X = map fst ps" and y: "y = map snd ps"
    using len by (simp_all add: ps_def)
  have ne: "ps \<noteq> []" using sxx X by auto
  define xm where "xm = mean X"
  define ym where "ym = mean y"
  define dx where "dx = (\<lambda>p :: real \<times> real. fst p - xm)"
  define dy where "dy = (\<lambda>p :: real \<times> real. snd p - ym)"
  define S where "S = (\<lambda>f :: real \<times> real \<Rightarrow> real. sum_list (map f ps))"
  define c where "c = S (\<lambda>p. dx p * dy p) / S (\<lambda>p. dx p * dx p)"
  define r where "r = (\<lambda>p. dy p - c * dx p)"
  have Sdx: "S dx = 0"
    unfolding S_def dx_def xm_def mean_def X using sum_list_centered[OF ne, of fst]
    by (simp add: comp_def)
  have Sdy: "S dy = 0"
    unfolding S_def dy_def ym_def mean_def y using sum_list_centered[OF ne, of snd]
    by (simp add: comp_def)
  have sxx': "S (\<lambda>p. dx p * dx p) \<noteq> 0"
  proof -
    have "sum_list (map (\<lambda>x. (x - xm) * (x - xm)) X) = S (\<lambda>p. dx p * dx p)"
      unfolding S_def dx_def by (subst X) (simp add: comp_def)
    then show ?thesis using sxx by (simp add: xm_def)
  qed
  have Sr: "S r = 0"
    unfolding r_def S_def using Sdx Sdy
    by (simp add: sum_list_subtractf sum_list_const_mult S_def)
  have Srdx: "S (\<lambda>p. r p * dx p) = 0"
  proof -
    have "S (\<lambda>p. r p * dx p) = S (\<lambda>p. dx p * dy p) - c * S (\<lambda>p. dx p * dx p)"
      unfolding r_def S_def
      by (simp add: sum_list_subtractf sum_list_const_mult[symmetric] algebra_simps)
    also have "\<dots> = 0" using sxx' by (simp add: c_def)
    finally show ?thesis .
  qed
  have e1: "sum_list (map g X) = sum_list (map (\<lambda>p. g (fst p)) ps)" for g :: "real \<Rightarrow> real"
    by (subst X) (simp add: comp_def)
  have fit: "LinearRegression_fit X y = \<lparr>coef = c, intercept = ym - c * xm\<rparr>"
    unfolding LinearRegression_fit_def Let_def c_def S_def dx_def dy_def xm_def[symmetric] ym_def[symmetric]
      ps_def[symmetric] e1
    by (simp add: case_prod_unfold)
  define u where "u = c - a"
  define v where "v = ym - a * xm - b"
  have lhs: "sum_list (map (\<lambda>(x, w). (w - (c * x + (ym - c * xm)))\<^sup>2) ps) = S (\<lambda>p. (r p)\<^sup>2)"
    unfolding S_def r_def dx_def dy_def
    by (rule arg_cong[where f = sum_list], rule map_cong) (auto simp: algebra_simps)
  have rhs: "sum_list (map (\<lambda>(x, w). (w - (a * x + b))\<^sup>2) ps)
      = S (\<lambda>p. (r p)\<^sup>2) + (2 * u) * S (\<lambda>p. r p * dx p) + (2 * v) * S r
        + S (\<lambda>p. (u * dx p + v)\<^sup>2)"
  proof -
    have "sum_list (map (\<lambda>(x, w). (w - (a * x + b))\<^sup>2) ps)
        = S (\<lambda>p. (r p)\<^sup>2 + (2 * u) * (r p * dx p) + (2 * v) * r p + (u * dx p + v)\<^sup>2)"
      unfolding S_def r_def dx_def dy_def u_def v_def
      by (rule arg_cong[where f = sum_list], rule map_cong)
         (auto simp: algebra_simps power2_eq_square)
    also have "\<dots> = S (\<lambda>p. (r p)\<^sup>2) + (2 * u) * S (\<lambda>p. r p * dx p) + (2 * v) * S r
        + S (\<lambda>p. (u * dx p + v)\<^sup>2)"
      unfolding S_def by (simp add: sum_list_addf sum_list_const_mult)
    finally show ?thesis .
  qed
  have "0 \<le> S (\<lambda>p. (u * dx p + v)\<^sup>2)"
    unfolding S_def by (rule sum_list_nonneg) auto
  then show ?thesis
    unfolding fit ps_def[symmetric] using lhs rhs Sr Srdx by simp
qed

lemma predict_long:
  assumes "2 \<le> length (bars d)" and "1 \<le> days"
  shows "predict_price_movement (Some d) days =
     ret (Some (d\<lparr>Days := Some (map int [0..<length (bars d)])\<rparr>),
          Some (Close (last (bars d))),
          Some (coef (LinearRegression_fit (map real [0..<length (bars d)]) (map Close (bars d)))
                  * (real (length (bars d)) - 1 + real_of_int days)
                + intercept (LinearRegression_fit (map real [0..<length (bars d)]) (map Close (bars d)))))"
proof -
  have ne: "arange (int (length (bars d))) (int (length (bars d)) + days) \<noteq> []"
    and la: "last (arange (int (length (bars d))) (int (length (bars d)) + days))
             = int (length (bars d)) + days - 1"
    using arange_last[OF assms(2)] by simp_all
  have X: "map real_of_int (map int [0..<length (bars d)]) = map real [0..<length (bars d)]"
    by simp
  show ?thesis
    using assms(1)
    by (simp add: predict_price_movement_def Let_def arange_0 X LinearRegression_predict_def
        last_item_def try_except_def andthen_def ret_def raise_def last_map ne la
        del: map_map)
qed

lemma predict_nonpositive:
  assumes "2 \<le> length (bars d)" and "days \<le> 0"
  shows "predict_price_movement (Some d) days =
     ([St_warning (Error_during_prediction ValueError)],
      Inr (Some (d\<lparr>Days := Some (map int [0..<length (bars d)])\<rparr>), None, None))"
  using assms
  by (simp add: predict_price_movement_def Let_def arange_0 LinearRegression_predict_def
        try_except_def andthen_def ret_def raise_def emit_def arange_def)

lemma frame_of_closes_simps:
  "bars (frame_of_closes cs) = map bar_closing_at cs"
  "Days (frame_of_closes cs) = None"
  "Close (bar_closing_at c) = c"
  by (simp_all add: frame_of_closes_def bar_closing_at_def)

subsection \<open>Short series\<close>

text \<open>
  C4. For a price series of length 0 or 1 the forecaster returns the pair
  \<^verbatim>\<open>(None, None)\<close>: no current price, no predicted price, nothing rendered, and the
  frame is left as it was.
\<close>

theorem forecast_short_series_null:
  assumes "length (bars d) < 2"
  shows "predict_price_movement (Some d) days = ([], Inr (Some d, None, None))"
  using predict_short[OF assms] by (simp add: ret_def)

theorem forecast_short_series_null_witness:
  "length (bars (frame_of_closes [100])) < 2 \<and>
   predict_price_movement (Some (frame_of_closes [100])) 7
     = ([], Inr (Some (frame_of_closes [100]), None, None)) \<and>
   length (bars (frame_of_closes [])) < 2 \<and>
   predict_price_movement (Some (frame_of_closes [])) 7
     = ([], Inr (Some (frame_of_closes []), None, None))"
  using forecast_short_series_null[of "frame_of_closes [100]" 7]
    forecast_short_series_null[of "frame_of_closes []" 7]
  by (simp add: frame_of_closes_simps)

subsection \<open>Series of two bars or more\<close>






subsection \<open>The frame after the call\<close>

text \<open>
  C9, as amended. The forecaster leaves every bar of the series as it is (and the number
  of bars). On a series of fewer than 2 bars it leaves the whole frame as it is; on a
  series of 2 bars or more it assigns the column \<^verbatim>\<open>Days\<close> of the frame it is given, with
  the values \<open>0, ..., len - 1\<close>, whatever the horizon and whether or not the prediction
  succeeds.
\<close>

theorem forecast_adds_days_column:
  "\<exists>es d' current predicted.
     predict_price_movement (Some d) days = (es, Inr (Some d', current, predicted)) \<and>
     bars d' = bars d \<and>
     d' = (if length (bars d) < 2 then d
           else d\<lparr>Days := Some (map int [0..<length (bars d)])\<rparr>)"
proof (cases "length (bars d) < 2")
  case True
  then show ?thesis using predict_short[of d days] by (simp add: ret_def)
next
  case False
  then have len: "2 \<le> length (bars d)" by simp
  show ?thesis
  proof (cases "1 \<le> days")
    case True
    then show ?thesis using predict_long[OF len True] len by (simp add: ret_def)
  next
    case False
    then have "days \<le> 0" by simp
    then show ?thesis using predict_nonpositive[OF len] len by simp
  qed
qed

text \<open>
  The claim as stated says that no field is added: on the frame of the closes 100, 101,
  which has no column \<^verbatim>\<open>Days\<close>, the frame after the call has one.
\<close>

theorem forecast_changes_frame_counterexample:
  "predict_price_movement (Some (frame_of_closes [100, 101])) 7
     = ([], Inr (Some ((frame_of_closes [100, 101])\<lparr>Days := Some [0, 1]\<rparr>), Some 101, Some 108)) \<and>
   (frame_of_closes [100, 101])\<lparr>Days := Some [0, 1]\<rparr> \<noteq> frame_of_closes [100, 101]"
proof -
  let ?d = "frame_of_closes [100, 101]"
  have len: "2 \<le> length (bars ?d)" by (simp add: frame_of_closes_simps)
  have lin: "map Close (bars ?d) = map (\<lambda>i. 1 * real i + 100) [0..<length (bars ?d)]"
    by (simp add: frame_of_closes_simps upt_rec)
  have "predict_price_movement (Some ?d) 7
     = ([], Inr (Some (?d\<lparr>Days := Some [0, 1]\<rparr>), Some 101, Some 108))"
    using predict_long[OF len, of 7] unfolding lin fit_linear[OF len]
    by (simp add: ret_def frame_of_closes_simps upt_rec)
  moreover have "?d\<lparr>Days := Some [0, 1]\<rparr> \<noteq> ?d"
    by (simp add: frame_of_closes_def data_frame.defs)
  ultimately show ?thesis by simp
qed

section \<open>Properties of the screener\<close>

subsection \<open>Auxiliary facts\<close>

lemma analyze_single_stock_ok:
  assumes "info stock = Inr i" and "options stock = Inr (expiry # rest)"
    and "option_chain stock expiry = Inr (calls, puts)"
  shows "analyze_single_stock stock c q =
     ([St_subheader (Options_recommendations_for (shortName i)),
       St_write Relevant_call_options,
       St_dataframe (filter (\<lambda>k. strike k \<ge> c * 0.95 \<and> strike k \<le> c * 1.05) calls),
       St_write Relevant_put_options,
       St_dataframe (filter (\<lambda>k. strike k \<ge> c * 0.95 \<and> strike k \<le> c * 1.05) puts),
       if q > c * 1.05 then St_success (Recommendation_buy_calls q c)
       else if q < c * 0.95 then St_success (Recommendation_buy_puts q c)
       else St_info Recommendation_hold],
      Inr ())"
  using assms
  by (simp add: analyze_single_stock_def andthen_def try_except_def call_def emit_def)

lemma analyze_single_stock_cases:
  "(\<exists>i expiry rest calls puts. info stock = Inr i \<and> options stock = Inr (expiry # rest)
       \<and> option_chain stock expiry = Inr (calls, puts))
   \<or> (\<forall>ev \<in> set (effects (analyze_single_stock stock c q)).
         (\<exists>m. ev = St_subheader m) \<or> (\<exists>m. ev = St_warning m))"
  by (auto simp: analyze_single_stock_def andthen_def try_except_def call_def emit_def effects_def
      split: sum.splits list.splits prod.splits)

lemma sample_stock_run:
  "analyze_single_stock sample_stock c q =
     ([St_subheader (Options_recommendations_for ''Sample Inc.''),
       St_write Relevant_call_options,
       St_dataframe (filter (\<lambda>k. strike k \<ge> c * 0.95 \<and> strike k \<le> c * 1.05)
          (map option_at [90, 95, 100, 105, 110])),
       St_write Relevant_put_options,
       St_dataframe (filter (\<lambda>k. strike k \<ge> c * 0.95 \<and> strike k \<le> c * 1.05)
          (map option_at [94, 95, 105, 106])),
       if q > c * 1.05 then St_success (Recommendation_buy_calls q c)
       else if q < c * 0.95 then St_success (Recommendation_buy_puts q c)
       else St_info Recommendation_hold],
      Inr ())"
  using analyze_single_stock_ok[of sample_stock
      "\<lambda>k. if k = ''shortName'' then Some ''Sample Inc.'' else None"
      "''2025-01-17''" "[''2025-02-21'']"
      "map option_at [90, 95, 100, 105, 110]" "map option_at [94, 95, 105, 106]" c q]
  by (simp add: sample_stock_def shortName_def)


subsection \<open>The recommendation\<close>




subsection \<open>The option filter\<close>

text \<open>
  C5. Every contract in a table the screener shows (the filtered calls, the filtered puts)
  has a strike with \<open>0.95 * currentPrice \<le> strike \<le> 1.05 * currentPrice\<close>, both bounds
  included; so no contract with a strike outside that range is shown.
\<close>

theorem option_filter_range:
  assumes "St_dataframe shown \<in> set (effects (analyze_single_stock stock current_price predicted_price))"
    and "k \<in> set shown"
  shows "0.95 * current_price \<le> strike k \<and> strike k \<le> 1.05 * current_price"
proof -
  consider (ok) i expiry rest calls puts where "info stock = Inr i" "options stock = Inr (expiry # rest)"
      "option_chain stock expiry = Inr (calls, puts)"
    | (none) "\<forall>ev \<in> set (effects (analyze_single_stock stock current_price predicted_price)).
         (\<exists>m. ev = St_subheader m) \<or> (\<exists>m. ev = St_warning m)"
    using analyze_single_stock_cases[of stock current_price predicted_price] by blast
  then show ?thesis
  proof cases
    case ok
    from assms show ?thesis
      unfolding analyze_single_stock_ok[OF ok]
      by (auto simp: effects_def mult.commute split: if_splits)
  next
    case none
    with assms(1) show ?thesis by auto
  qed
qed

theorem option_filter_range_witness:
  "St_dataframe (map option_at [95, 100, 105])
     \<in> set (effects (analyze_single_stock sample_stock 100 111)) \<and>
   option_at 95 \<in> set (map option_at [95, 100, 105]) \<and>
   option_at 105 \<in> set (map option_at [95, 100, 105]) \<and>
   0.95 * 100 \<le> strike (option_at 95) \<and> strike (option_at 95) \<le> 1.05 * 100 \<and>
   0.95 * 100 \<le> strike (option_at 105) \<and> strike (option_at 105) \<le> 1.05 * 100"
proof -
  have a: "St_dataframe (map option_at [95, 100, 105])
     \<in> set (effects (analyze_single_stock sample_stock 100 111))"
    by (simp add: sample_stock_run effects_def option_at_def)
  have b: "option_at 95 \<in> set (map option_at [95, 100, 105])"
    and c: "option_at 105 \<in> set (map option_at [95, 100, 105])"
    by simp_all
  show ?thesis
    using option_filter_range[OF a b] option_filter_range[OF a c] a b c
    by simp
qed

section \<open>Properties of the loader and of the batch\<close>

subsection \<open>Auxiliary facts\<close>

lemma fetch_stock_data_run:
  "fetch_stock_data yf ticker s e =
     (case download yf (str_replace CHR ''.'' CHR ''-'' ticker) s e of
        Inl x \<Rightarrow>
          ([Yf_download (str_replace CHR ''.'' CHR ''-'' ticker) s e,
            St_warning (Error_fetching_data ticker x)], Inr None)
      | Inr d \<Rightarrow>
          if bars d = []
          then ([Yf_download (str_replace CHR ''.'' CHR ''-'' ticker) s e,
                 St_warning (No_data_found ticker)], Inr None)
          else ([Yf_download (str_replace CHR ''.'' CHR ''-'' ticker) s e], Inr (Some d)))"
  by (simp add: fetch_stock_data_def try_except_def andthen_def emit_def call_def ret_def
      split: sum.splits)

lemma str_replace_map: "str_replace old new s = map (\<lambda>c. if c = old then new else c) s"
  by (induction s) simp_all

lemma predict_default:
  "predict_price_movement (Some d) 7 =
     (if length (bars d) < 2 then ([], Inr (Some d, None, None))
      else ([], Inr (Some (d\<lparr>Days := Some (map int [0..<length (bars d)])\<rparr>),
                  Some (Close (last (bars d))),
                  Some (coef (LinearRegression_fit (map real [0..<length (bars d)]) (map Close (bars d)))
                          * (real (length (bars d)) - 1 + 7)
                        + intercept (LinearRegression_fit (map real [0..<length (bars d)]) (map Close (bars d)))))))"
proof (cases "length (bars d) < 2")
  case True
  then show ?thesis using predict_short[of d 7] by (simp add: ret_def)
next
  case False
  then have "2 \<le> length (bars d)" by simp
  from predict_long[OF this, of 7] False show ?thesis by (simp add: ret_def)
qed

lemma fetch_effects_downloads:
  "downloads (effects (fetch_stock_data yf ticker s e)) = [(str_replace CHR ''.'' CHR ''-'' ticker, s, e)]"
  by (simp add: fetch_stock_data_run effects_def split: sum.splits)

lemma fetch_never_raises: "\<exists>v. outcome (fetch_stock_data yf ticker s e) = Inr v"
  by (simp add: fetch_stock_data_run outcome_def split: sum.splits)

lemma process_ticker_run:
  "process_ticker yf today results ticker =
     (effects (fetch_stock_data yf ticker (2022, 1, 1) today),
      Inr (results @ (case forecast_entry yf today ticker of None \<Rightarrow> [] | Some x \<Rightarrow> [x])))"
  by (simp add: process_ticker_def forecast_entry_def fetch_stock_data_run predict_default
      try_except_def andthen_def ret_def effects_def outcome_def
      split: sum.splits)

lemma for_each_process_ticker:
  "for_each (process_ticker yf today) universe acc =
     (concat (map (\<lambda>t. effects (fetch_stock_data yf t (2022, 1, 1) today)) universe),
      Inr (acc @ List.map_filter (forecast_entry yf today) universe))"
proof (induction universe arbitrary: acc)
  case Nil
  show ?case by (simp add: ret_def List.map_filter_simps)
next
  case (Cons t ts)
  show ?case
    apply (simp only: for_each.simps)
    apply (subst process_ticker_run)
    apply (simp add: andthen_def Cons List.map_filter_simps split: option.splits)
    done
qed

lemma analyze_entry_never_raises: "outcome (analyze_entry yf x) = Inr ()"
  by (cases x) (simp add: analyze_entry_def try_except_def andthen_def emit_def outcome_def
      split: prod.splits sum.splits)

lemma for_each_analyze_entry:
  "for_each (\<lambda>_ x. analyze_entry yf x) xs () =
     (concat (map (\<lambda>x. effects (analyze_entry yf x)) xs), Inr ())"
proof (induction xs)
  case Nil
  show ?case by (simp add: ret_def)
next
  case (Cons x xs)
  obtain es where "analyze_entry yf x = (es, Inr ())"
    using analyze_entry_never_raises[of yf x] by (cases "analyze_entry yf x") (simp add: outcome_def)
  then show ?case by (simp add: Cons andthen_def effects_def)
qed

lemma find_top_recommendations_in_run:
  "find_top_recommendations_in universe yf today =
     (St_subheader Top_recommendations_header
        # concat (map (\<lambda>t. effects (fetch_stock_data yf t (2022, 1, 1) today)) universe)
        @ (if List.map_filter (forecast_entry yf today) universe = []
           then [St_warning No_valid_recommendations]
           else concat (map (\<lambda>x. effects (analyze_entry yf x))
                  (sorted_results (List.map_filter (forecast_entry yf today) universe)))),
      Inr ())"
  by (simp add: find_top_recommendations_in_def for_each_process_ticker for_each_analyze_entry
      andthen_def emit_def ret_def Let_def)

lemma downloads_append: "downloads (xs @ ys) = downloads xs @ downloads ys"
  by (induction xs rule: downloads.induct) simp_all

lemma downloads_concat: "downloads (concat xss) = concat (map downloads xss)"
  by (induction xss) (simp_all add: downloads_append)

lemma downloads_analyze_single_stock:
  "downloads (effects (analyze_single_stock st c q)) = []"
proof -
  consider (ok) i expiry rest calls puts where "info st = Inr i" "options st = Inr (expiry # rest)"
      "option_chain st expiry = Inr (calls, puts)"
    | (none) "\<forall>ev \<in> set (effects (analyze_single_stock st c q)).
         (\<exists>m. ev = St_subheader m) \<or> (\<exists>m. ev = St_warning m)"
    using analyze_single_stock_cases[of st c q] by blast
  then show ?thesis
  proof cases
    case ok
    show ?thesis unfolding analyze_single_stock_ok[OF ok] by (simp add: effects_def)
  next
    case none
    have "\<forall>ev \<in> set es. (\<exists>m. ev = St_subheader m) \<or> (\<exists>m. ev = St_warning m) \<Longrightarrow> downloads es = []" for es
      by (induction es rule: downloads.induct) auto
    from this[OF none] show ?thesis .
  qed
qed

lemma downloads_analyze_entry: "downloads (effects (analyze_entry yf x)) = []"
proof -
  obtain t c q m where x: "x = (t, c, q, m)" by (cases x)
  obtain es r where a: "analyze_single_stock (Ticker yf (str_replace CHR ''.'' CHR ''-'' t)) c q = (es, r)"
    by (cases "analyze_single_stock (Ticker yf (str_replace CHR ''.'' CHR ''-'' t)) c q")
  have "downloads es = []"
    using downloads_analyze_single_stock[of "Ticker yf (str_replace CHR ''.'' CHR ''-'' t)" c q] a
    by (simp add: effects_def)
  then show ?thesis
    by (cases r) (simp_all add: x analyze_entry_def a try_except_def andthen_def emit_def effects_def
        downloads_append)
qed

lemma downloads_batch:
  "downloads (effects (find_top_recommendations_in universe yf today)) =
     map (\<lambda>t. (str_replace CHR ''.'' CHR ''-'' t, (2022, 1, 1), today)) universe"
proof -
  have a: "concat (map downloads (map (\<lambda>t. effects (fetch_stock_data yf t (2022, 1, 1) today)) universe))
      = map (\<lambda>t. (str_replace CHR ''.'' CHR ''-'' t, (2022, 1, 1), today)) universe"
    by (induction universe) (simp_all add: fetch_effects_downloads)
  have b: "concat (map downloads (map (\<lambda>x. effects (analyze_entry yf x)) xs)) = []" for xs
    by (induction xs) (simp_all add: downloads_analyze_entry)
  have e: "effects (x, y) = x" for x :: "effect list" and y :: "exn + unit"
    by (simp add: effects_def)
  show ?thesis
    unfolding find_top_recommendations_in_run e
    using a b[of "sorted_results (List.map_filter (forecast_entry yf today) universe)"]
    by (simp add: downloads_append downloads_concat del: map_map)
qed









lemma analyze_entry_run:
  "analyze_entry yf (t, c, p, m) =
     (St_write (Entry_line t p c m) # Yf_Ticker (str_replace CHR ''.'' CHR ''-'' t)
        # effects (analyze_single_stock (Ticker yf (str_replace CHR ''.'' CHR ''-'' t)) c p)
        @ (case outcome (analyze_single_stock (Ticker yf (str_replace CHR ''.'' CHR ''-'' t)) c p) of
             Inl e \<Rightarrow> [St_warning (Error_analyzing_options_for t e)]
           | Inr _ \<Rightarrow> []),
      Inr ())"
  by (simp add: analyze_entry_def try_except_def andthen_def emit_def effects_def outcome_def
      split: prod.splits sum.splits)

lemma fit_samples:
  "LinearRegression_fit [0, 1, 2, 3, 4] [100, 101, 102, 103, 104] = \<lparr>coef = 1, intercept = 100\<rparr>"
  "LinearRegression_fit [0, 1] [50, 48] = \<lparr>coef = -2, intercept = 50\<rparr>"
  using fit_linear[of 5 1 100] fit_linear[of 2 "-2" 50]
  by (simp_all add: upt_rec)

lemma forecast_entry_samples:
  "forecast_entry sample_provider today ''AAPL'' = Some (''AAPL'', 104, 111, 7)"
  "forecast_entry sample_provider today ''BRK.B'' = Some (''BRK.B'', 48, 34, 14)"
  "forecast_entry sample_provider today ''MSFT'' = None"
  "forecast_entry sample_provider today ''T'' = None"
  "forecast_entry sample_provider today ''V'' = None"
  by (simp_all add: forecast_entry_def fetch_stock_data_run sample_provider_def predict_default
      frame_of_closes_simps outcome_def fit_samples)

subsection \<open>The symbol sent to the provider\<close>

text \<open>
  C8. The loader replaces every \<open>.\<close> of the ticker by \<open>-\<close> and sends the provider the
  result: the download request carries the replaced symbol, and what the loader returns
  is decided by the provider's answer for that symbol (the warnings keep the ticker as it
  was given). So \<open>BRK.B\<close> is requested as \<open>BRK-B\<close>.
\<close>

theorem loader_normalizes_ticker:
  "fetch_stock_data yf ticker s e =
     (let adjusted_ticker = map (\<lambda>c. if c = CHR ''.'' then CHR ''-'' else c) ticker in
      case download yf adjusted_ticker s e of
        Inl x \<Rightarrow>
          ([Yf_download adjusted_ticker s e, St_warning (Error_fetching_data ticker x)], Inr None)
      | Inr d \<Rightarrow>
          if bars d = []
          then ([Yf_download adjusted_ticker s e, St_warning (No_data_found ticker)], Inr None)
          else ([Yf_download adjusted_ticker s e], Inr (Some d))) \<and>
   map (\<lambda>c. if c = CHR ''.'' then CHR ''-'' else c) ''BRK.B'' = ''BRK-B''"
  by (simp add: fetch_stock_data_run str_replace_map Let_def split: sum.splits)

subsection \<open>The ranking\<close>



subsection \<open>No valid forecast\<close>

text \<open>
  C7. When the universe is empty, or the loader or the forecaster fails for every ticker
  of it, the batch renders its header, the loader's requests and warnings, and the
  warning that no valid recommendations could be generated; it renders no entry, no
  table and no recommendation, opens no \<^verbatim>\<open>yf.Ticker\<close>, and returns without an
  exception.
\<close>

theorem batch_no_valid_forecasts:
  assumes "\<forall>t \<in> set universe. forecast_entry yf today t = None"
  shows "find_top_recommendations_in universe yf today =
           (St_subheader Top_recommendations_header
              # concat (map (\<lambda>t. effects (fetch_stock_data yf t (2022, 1, 1) today)) universe)
              @ [St_warning No_valid_recommendations],
            Inr ()) \<and>
         (\<forall>ev \<in> set (effects (find_top_recommendations_in universe yf today)).
            (\<exists>m. ev = St_subheader m) \<or> (\<exists>m. ev = St_warning m) \<or>
            (\<exists>symbol s e. ev = Yf_download symbol s e))"
proof -
  have "List.map_filter (forecast_entry yf today) universe = []"
    using assms by (induction universe) (simp_all add: List.map_filter_simps)
  then have run: "find_top_recommendations_in universe yf today =
           (St_subheader Top_recommendations_header
              # concat (map (\<lambda>t. effects (fetch_stock_data yf t (2022, 1, 1) today)) universe)
              @ [St_warning No_valid_recommendations],
            Inr ())"
    by (simp add: find_top_recommendations_in_run)
  have "\<forall>ev \<in> set (effects (fetch_stock_data yf t s e)).
          (\<exists>m. ev = St_warning m) \<or> (\<exists>symbol s e. ev = Yf_download symbol s e)" for t s e
    by (cases s; cases e) (auto simp add: fetch_stock_data_run effects_def split: sum.splits)
  then show ?thesis unfolding run by (auto simp: effects_def)
qed

theorem batch_no_valid_forecasts_witness:
  "forecast_entry sample_provider (2024, 6, 3) ''MSFT'' = None \<and>
   forecast_entry sample_provider (2024, 6, 3) ''T'' = None \<and>
   forecast_entry sample_provider (2024, 6, 3) ''V'' = None \<and>
   find_top_recommendations_in [''MSFT'', ''T'', ''V''] sample_provider (2024, 6, 3) =
     ([St_subheader Top_recommendations_header,
       Yf_download ''MSFT'' (2022, 1, 1) (2024, 6, 3),
       St_warning (Error_fetching_data ''MSFT'' (ProviderError ''timeout'')),
       Yf_download ''T'' (2022, 1, 1) (2024, 6, 3),
       Yf_download ''V'' (2022, 1, 1) (2024, 6, 3),
       St_warning (No_data_found ''V''),
       St_warning No_valid_recommendations], Inr ()) \<and>
   find_top_recommendations_in [] sample_provider (2024, 6, 3) =
     ([St_subheader Top_recommendations_header, St_warning No_valid_recommendations], Inr ())"
proof -
  have a: "\<forall>t \<in> set [''MSFT'', ''T'', ''V'']. forecast_entry sample_provider (2024, 6, 3) t = None"
    by (simp add: forecast_entry_samples)
  have b: "\<forall>t \<in> set []. forecast_entry sample_provider (2024, 6, 3) t = None"
    by simp
  have r1: "find_top_recommendations_in [''MSFT'', ''T'', ''V''] sample_provider (2024, 6, 3) =
           (St_subheader Top_recommendations_header
              # concat (map (\<lambda>t. effects (fetch_stock_data sample_provider t (2022, 1, 1) (2024, 6, 3)))
                  [''MSFT'', ''T'', ''V''])
              @ [St_warning No_valid_recommendations], Inr ())"
    using batch_no_valid_forecasts[OF a] by (rule conjunct1)
  have r2: "find_top_recommendations_in [] sample_provider (2024, 6, 3) =
           (St_subheader Top_recommendations_header
              # concat (map (\<lambda>t. effects (fetch_stock_data sample_provider t (2022, 1, 1) (2024, 6, 3))) [])
              @ [St_warning No_valid_recommendations], Inr ())"
    using batch_no_valid_forecasts[OF b] by (rule conjunct1)
  have f: "forecast_entry sample_provider (2024, 6, 3) ''MSFT'' = None \<and>
      forecast_entry sample_provider (2024, 6, 3) ''T'' = None \<and>
      forecast_entry sample_provider (2024, 6, 3) ''V'' = None"
    by (simp add: forecast_entry_samples)
  have g: "concat (map (\<lambda>t. effects (fetch_stock_data sample_provider t (2022, 1, 1) (2024, 6, 3)))
                  [''MSFT'', ''T'', ''V'']) =
      [Yf_download ''MSFT'' (2022, 1, 1) (2024, 6, 3),
       St_warning (Error_fetching_data ''MSFT'' (ProviderError ''timeout'')),
       Yf_download ''T'' (2022, 1, 1) (2024, 6, 3),
       Yf_download ''V'' (2022, 1, 1) (2024, 6, 3),
       St_warning (No_data_found ''V'')]"
    by (simp add: fetch_stock_data_run sample_provider_def effects_def frame_of_closes_simps)
  show ?thesis
    unfolding r1 r2 g using f by simp
qed

section \<open>Properties of the page\<close>

subsection \<open>Auxiliary facts\<close>

lemma downloads_tab_single:
  assumes "analyze_stock_button inp" and "selected_stock inp \<noteq> ''Analyze All''"
  shows "downloads (effects (snd (tab_stock_analysis yf today inp ss))) =
     [(str_replace CHR ''.'' CHR ''-'' (selected_stock inp), start_date inp, end_date inp)]"
proof -
  have an: "downloads es = []" if "analyze_single_stock st c q = (es, r)" for st c q es r
    using downloads_analyze_single_stock[of st c q] that by (simp add: effects_def)
  show ?thesis
    using assms
    by (auto simp add: tab_stock_analysis_def fetch_stock_data_run predict_default Let_def
        andthen_def emit_def effects_def downloads_append
        split: sum.splits prod.splits option.splits dest: an)
qed

lemma app_ignores_dates:
  assumes "\<not> (analyze_stock_button inp \<and> selected_stock inp \<noteq> ''Analyze All'')"
  shows "app yf today (inp\<lparr>start_date := s, end_date := e\<rparr>) ss = app yf today inp ss"
  using assms
  by (auto simp add: app_def tab_stock_analysis_def tab_top_recommendations_def)

subsection \<open>The dates of the batch\<close>

text \<open>
  C10. The batch asks the loader for every ticker of \<open>top_50_stocks\<close>, in order, each
  with the start date 2022-01-01 and the end date today. Both buttons that start the
  batch ("Analyze All" in the first tab, the button of the third tab) run this same
  \<open>find_top_recommendations\<close>, which takes no dates from the page. A run of the page that
  is not a single-ticker analysis is the same run whatever dates are entered. In a
  single-ticker analysis the first tab requests the selected ticker, and only it, with
  the dates entered.
\<close>

theorem batch_dates_fixed:
  "downloads (effects (find_top_recommendations yf today)) =
     map (\<lambda>t. (str_replace CHR ''.'' CHR ''-'' t, (2022, 1, 1), today)) top_50_stocks \<and>
   (analyze_stock_button inp \<and> selected_stock inp = ''Analyze All'' \<longrightarrow>
      snd (tab_stock_analysis yf today inp ss) =
        andthen (emit (St_header Stock_analysis_header)) (\<lambda>_. find_top_recommendations yf today)) \<and>
   (top_recommendations_button inp \<longrightarrow>
      tab_top_recommendations yf today inp = find_top_recommendations yf today) \<and>
   (\<not> (analyze_stock_button inp \<and> selected_stock inp \<noteq> ''Analyze All'') \<longrightarrow>
      app yf today (inp\<lparr>start_date := s, end_date := e\<rparr>) ss = app yf today inp ss) \<and>
   (analyze_stock_button inp \<and> selected_stock inp \<noteq> ''Analyze All'' \<longrightarrow>
      downloads (effects (snd (tab_stock_analysis yf today inp ss))) =
        [(str_replace CHR ''.'' CHR ''-'' (selected_stock inp), start_date inp, end_date inp)])"
proof -
  have a: "downloads (effects (find_top_recommendations yf today)) =
     map (\<lambda>t. (str_replace CHR ''.'' CHR ''-'' t, (2022, 1, 1), today)) top_50_stocks"
    unfolding find_top_recommendations_def by (rule downloads_batch)
  have b: "analyze_stock_button inp \<and> selected_stock inp = ''Analyze All'' \<longrightarrow>
      snd (tab_stock_analysis yf today inp ss) =
        andthen (emit (St_header Stock_analysis_header)) (\<lambda>_. find_top_recommendations yf today)"
    by (simp add: tab_stock_analysis_def)
  have c: "top_recommendations_button inp \<longrightarrow>
      tab_top_recommendations yf today inp = find_top_recommendations yf today"
    by (simp add: tab_top_recommendations_def)
  show ?thesis
    using a b c app_ignores_dates[where inp = inp and s = s and e = e and yf = yf and today = today and ss = ss]
      downloads_tab_single[where inp = inp and yf = yf and today = today and ss = ss]
    by blast
qed

theorem batch_dates_fixed_witness:
  "downloads (effects (find_top_recommendations sample_provider (2024, 6, 3))) =
     map (\<lambda>t. (str_replace CHR ''.'' CHR ''-'' t, (2022, 1, 1), (2024, 6, 3))) top_50_stocks \<and>
   snd (tab_stock_analysis sample_provider (2024, 6, 3) sample_batch_inputs sample_session) =
     andthen (emit (St_header Stock_analysis_header))
       (\<lambda>_. find_top_recommendations sample_provider (2024, 6, 3)) \<and>
   app sample_provider (2024, 6, 3)
       (sample_batch_inputs\<lparr>start_date := (1999, 12, 31), end_date := (2000, 1, 1)\<rparr>) sample_session
     = app sample_provider (2024, 6, 3) sample_batch_inputs sample_session \<and>
   tab_top_recommendations sample_provider (2024, 6, 3)
       (sample_batch_inputs\<lparr>top_recommendations_button := True\<rparr>)
     = find_top_recommendations sample_provider (2024, 6, 3) \<and>
   downloads (effects (snd (tab_stock_analysis sample_provider (2024, 6, 3)
       (sample_batch_inputs\<lparr>selected_stock := ''BRK.B''\<rparr>) sample_session))) =
     [(''BRK-B'', (2023, 1, 2), (2023, 12, 29))]"
proof -
  have h1: "analyze_stock_button sample_batch_inputs \<and> selected_stock sample_batch_inputs = ''Analyze All''"
    by (simp add: sample_batch_inputs_def)
  have h2: "\<not> (analyze_stock_button sample_batch_inputs \<and>
               selected_stock sample_batch_inputs \<noteq> ''Analyze All'')"
    by (simp add: sample_batch_inputs_def)
  have h3: "top_recommendations_button (sample_batch_inputs\<lparr>top_recommendations_button := True\<rparr>)"
    by simp
  have h4: "analyze_stock_button (sample_batch_inputs\<lparr>selected_stock := ''BRK.B''\<rparr>) \<and>
      selected_stock (sample_batch_inputs\<lparr>selected_stock := ''BRK.B''\<rparr>) \<noteq> ''Analyze All''"
    by (simp add: sample_batch_inputs_def)
  show ?thesis
    using batch_dates_fixed[where yf = sample_provider and today = "(2024, 6, 3)"
        and inp = sample_batch_inputs and ss = sample_session
        and s = "(1999, 12, 31)" and e = "(2000, 1, 1)"]
      batch_dates_fixed[where yf = sample_provider and today = "(2024, 6, 3)"
        and inp = "sample_batch_inputs\<lparr>top_recommendations_button := True\<rparr>"
        and ss = sample_session and s = "(1999, 12, 31)" and e = "(2000, 1, 1)"]
      batch_dates_fixed[where yf = sample_provider and today = "(2024, 6, 3)"
        and inp = "sample_batch_inputs\<lparr>selected_stock := ''BRK.B''\<rparr>"
        and ss = sample_session and s = "(1999, 12, 31)" and e = "(2000, 1, 1)"]
      h1 h2 h3 h4
    by (simp add: sample_batch_inputs_def)
qed

end
